theory Spec2Isabelle
  imports Main "HOL-Library.Word" "HOL-Library.Sublist"
begin

section \<open>Data model of baseapp/abci\_utils.go\<close>

text \<open>
  Go's \<open>uint64\<close> is \<open>64 word\<close>: \<open>+\<close> wraps around, \<open>\<le>\<close> and \<open><\<close> compare the
  unsigned values. Go's \<open>int64\<close> is the same 64 bits read in two's complement
  (\<open>sint\<close>, \<open><s\<close>); the conversion \<open>uint64(x)\<close> of an \<open>int64\<close> keeps the bits,
  so it is the identity on the word. A \<open>[]byte\<close> is a list of bytes and
  \<open>uint64(len(b))\<close> is \<open>of_nat (length b)\<close> (a Go slice is shorter than \<open>2^63\<close>).
\<close>

type_synonym u64 = "64 word"
type_synonym i64 = "64 word"
type_synonym bytes = "8 word list"

text \<open>
  One entry of \<open>GetSignaturesV2()\<close>: the signer string
  \<open>sdk.AccAddress(sig.PubKey.Address()).String()\<close> and \<open>sig.Sequence\<close>.
\<close>

record signatureV2 =
  signer :: string
  Sequence :: u64

text \<open>
  What \<open>memTx.(signing.SigVerifiableTx).GetSignaturesV2()\<close> does: the type
  assertion panics when the transaction is not a \<open>SigVerifiableTx\<close>, the call may
  return an error, or it returns the signatures.
\<close>

datatype sigs_result = NotSigVerifiable | SigsError | Sigs "signatureV2 list"

text \<open>
  An \<open>sdk.Tx\<close>: an opaque body, the optional \<open>GasTx\<close> capability
  (\<open>Some g\<close> when the value implements \<open>GasTx\<close> and \<open>GetGas()\<close> is \<open>g\<close>) and its
  signatures. A nil \<open>sdk.Tx\<close> is \<open>None :: sdk_tx option\<close>.
\<close>

record sdk_tx =
  tx_body :: bytes
  tx_gas :: "u64 option"
  tx_sigs :: sigs_result

record defaultTxSelector =
  totalTxBytes :: u64
  totalTxGas :: u64
  selectedTxs :: "bytes list"

definition NewDefaultTxSelector :: defaultTxSelector where
  "NewDefaultTxSelector = \<lparr>totalTxBytes = 0, totalTxGas = 0, selectedTxs = []\<rparr>"

definition SelectedTxs :: "defaultTxSelector \<Rightarrow> bytes list" where
  "SelectedTxs ts = selectedTxs ts"

definition Clear :: "defaultTxSelector \<Rightarrow> defaultTxSelector" where
  "Clear ts = ts\<lparr>totalTxBytes := 0, totalTxGas := 0, selectedTxs := []\<rparr>"

text \<open>The declared gas of the candidate: 0 for a nil transaction or one without \<open>GasTx\<close>.\<close>

definition txGasLimit :: "sdk_tx option \<Rightarrow> u64" where
  "txGasLimit memTx =
     (case memTx of
        None \<Rightarrow> 0
      | Some t \<Rightarrow> (case tx_gas t of None \<Rightarrow> 0 | Some g \<Rightarrow> g))"

text \<open>
  \<open>SelectTxForProposal\<close> mutates the selector and returns the halt flag; the model
  returns the flag and the selector after the call.
\<close>

definition SelectTxForProposal ::
  "u64 \<Rightarrow> u64 \<Rightarrow> sdk_tx option \<Rightarrow> bytes \<Rightarrow> defaultTxSelector \<Rightarrow> bool \<times> defaultTxSelector" where
  "SelectTxForProposal maxTxBytes maxBlockGas memTx txBz ts =
     (let txSize = (of_nat (length txBz) :: u64);
          gasLimit = txGasLimit memTx;
          ts' =
            (if txSize + totalTxBytes ts \<le> maxTxBytes then
               (if maxBlockGas > 0 then
                  (if gasLimit + totalTxGas ts \<le> maxBlockGas then
                     ts\<lparr>totalTxGas := totalTxGas ts + gasLimit,
                        totalTxBytes := totalTxBytes ts + txSize,
                        selectedTxs := selectedTxs ts @ [txBz]\<rparr>
                   else ts)
                else
                  ts\<lparr>totalTxBytes := totalTxBytes ts + txSize,
                     selectedTxs := selectedTxs ts @ [txBz]\<rparr>)
             else ts)
      in (totalTxBytes ts' \<ge> maxTxBytes \<or> (maxBlockGas > 0 \<and> totalTxGas ts' \<ge> maxBlockGas),
          ts'))"

text \<open>
  A sequence of \<open>SelectTxForProposal\<close> calls with the same budgets, each candidate a
  pair of the (possibly nil) decoded transaction and its bytes. Every call is made,
  whatever the halt flags were.
\<close>

fun select_calls ::
  "u64 \<Rightarrow> u64 \<Rightarrow> defaultTxSelector \<Rightarrow> (sdk_tx option \<times> bytes) list \<Rightarrow> defaultTxSelector" where
  "select_calls maxTxBytes maxBlockGas ts [] = ts"
| "select_calls maxTxBytes maxBlockGas ts ((memTx, txBz) # cs) =
     select_calls maxTxBytes maxBlockGas
       (snd (SelectTxForProposal maxTxBytes maxBlockGas memTx txBz ts)) cs"

text \<open>The admission condition, as the two nested tests of the source read.\<close>

definition admits :: "u64 \<Rightarrow> u64 \<Rightarrow> sdk_tx option \<Rightarrow> bytes \<Rightarrow> defaultTxSelector \<Rightarrow> bool" where
  "admits maxTxBytes maxBlockGas memTx txBz ts \<longleftrightarrow>
     totalTxBytes ts + of_nat (length txBz) \<le> maxTxBytes \<and>
     (maxBlockGas = 0 \<or> totalTxGas ts + txGasLimit memTx \<le> maxBlockGas)"

text \<open>The selector after an admission.\<close>

definition admitted :: "sdk_tx option \<Rightarrow> bytes \<Rightarrow> defaultTxSelector \<Rightarrow> defaultTxSelector" where
  "admitted memTx txBz ts =
     \<lparr>totalTxBytes = totalTxBytes ts + of_nat (length txBz),
      totalTxGas = totalTxGas ts + txGasLimit memTx,
      selectedTxs = selectedTxs ts @ [txBz]\<rparr>"


section \<open>Collaborators of the proposal handlers\<close>

text \<open>
  The verifier is the interface \<open>ProposalTxVerifier\<close>; an error return is \<open>None\<close>.
  It is taken as a function of its argument: what it answers for one transaction
  does not depend on the calls made before.
\<close>

record proposalTxVerifier =
  PrepareProposalVerifyTx :: "sdk_tx \<Rightarrow> bytes option"
  ProcessProposalVerifyTx :: "bytes \<Rightarrow> sdk_tx option"

text \<open>
  \<open>mempool.Remove\<close> returns nil, \<open>mempool.ErrTxNotFound\<close> or another error; the
  handler panics on the last one only.
\<close>

datatype remove_result = RemoveOk | ErrTxNotFound | RemoveFailed

text \<open>
  The field \<open>h.mempool\<close>: nil, the no-op mempool, or a real one. A real mempool is
  seen through \<open>Select(ctx, req.Txs)\<close>, whose iterator is the finite list of the
  transactions it yields in order (a nil iterator is the empty list), and through
  \<open>Remove\<close>.
\<close>

datatype mempool_impl =
  NilMempool
| NoOpMempool
| Mempool (mp_select: "bytes list \<Rightarrow> sdk_tx list") (mp_remove: "sdk_tx \<Rightarrow> remove_result")

record defaultProposalHandler =
  mempool :: mempool_impl
  txVerifier :: proposalTxVerifier
  txSelector :: defaultTxSelector

definition NewDefaultProposalHandler ::
  "mempool_impl \<Rightarrow> proposalTxVerifier \<Rightarrow> defaultProposalHandler" where
  "NewDefaultProposalHandler mp v =
     \<lparr>mempool = mp, txVerifier = v, txSelector = NewDefaultTxSelector\<rparr>"

text \<open>\<open>ctx.ConsensusParams().Block\<close>, nil or the block parameters with \<open>MaxGas\<close> an \<open>int64\<close>.\<close>

record blockParams =
  MaxBytes :: i64
  MaxGas :: i64

record sdk_context =
  Block :: "blockParams option"

record requestPrepareProposal =
  MaxTxBytes :: i64
  Txs :: "bytes list"

record requestProcessProposal =
  proposalTxs :: "bytes list"

datatype proposal_status = ACCEPT | REJECT

text \<open>The three panics of \<open>PrepareProposalHandler\<close>.\<close>

datatype panic = PanicNotSigVerifiable | PanicGetSignatures | PanicMempoolRemove

section \<open>PrepareProposalHandler\<close>

text \<open>\<open>maxBlockGas = uint64(b.MaxGas)\<close> when the block parameters are present, else 0.\<close>

definition prepare_maxBlockGas :: "sdk_context \<Rightarrow> u64" where
  "prepare_maxBlockGas ctx = (case Block ctx of None \<Rightarrow> 0 | Some b \<Rightarrow> MaxGas b)"

text \<open>
  The loop of the nil or no-op mempool path over \<open>req.Txs\<close>, the decoded transaction
  always nil; it leaves at the first halt flag.
\<close>

fun noop_loop :: "u64 \<Rightarrow> u64 \<Rightarrow> defaultTxSelector \<Rightarrow> bytes list \<Rightarrow> defaultTxSelector" where
  "noop_loop maxTxBytes maxBlockGas ts [] = ts"
| "noop_loop maxTxBytes maxBlockGas ts (txBz # rest) =
     (case SelectTxForProposal maxTxBytes maxBlockGas None txBz ts of
        (stop, ts') \<Rightarrow> if stop then ts' else noop_loop maxTxBytes maxBlockGas ts' rest)"

text \<open>
  The loop over \<open>sigs\<close>: the result is \<open>shouldAdd\<close> and \<open>txSignersSeqs\<close>. It leaves
  at the first signer seen before whose recorded sequence plus one is not the
  signature's sequence.
\<close>

fun check_signers ::
  "(string \<rightharpoonup> u64) \<Rightarrow> signatureV2 list \<Rightarrow> (string \<rightharpoonup> u64) \<Rightarrow> bool \<times> (string \<rightharpoonup> u64)" where
  "check_signers selSeqs [] txSignersSeqs = (True, txSignersSeqs)"
| "check_signers selSeqs (sig # sigs) txSignersSeqs =
     (case selSeqs (signer sig) of
        None \<Rightarrow> check_signers selSeqs sigs (txSignersSeqs(signer sig \<mapsto> Sequence sig))
      | Some seq \<Rightarrow>
          if seq + 1 \<noteq> Sequence sig then (False, txSignersSeqs)
          else check_signers selSeqs sigs (txSignersSeqs(signer sig \<mapsto> Sequence sig)))"

text \<open>
  The loop \<open>for sender, seq := range txSignersSeqs\<close>. Each round writes only the key
  \<open>sender\<close> of \<open>selectedTxsSignersSeqs\<close> and the keys of a Go map are distinct, so the
  order of the rounds does not matter and the loop is this update of every key.
  \<open>added\<close> is \<open>txsLen != selectedTxsNums\<close>.
\<close>

definition update_signer_seqs ::
  "bool \<Rightarrow> (string \<rightharpoonup> u64) \<Rightarrow> (string \<rightharpoonup> u64) \<Rightarrow> (string \<rightharpoonup> u64)" where
  "update_signer_seqs added txSignersSeqs selSeqs =
     (\<lambda>sender.
        case txSignersSeqs sender of
          None \<Rightarrow> selSeqs sender
        | Some seq \<Rightarrow>
            if added then Some seq
            else (case selSeqs sender of None \<Rightarrow> Some (seq - 1) | Some s \<Rightarrow> Some s))"

text \<open>The variables of the mempool loop.\<close>

record prepare_state =
  selector :: defaultTxSelector
  selectedTxsSignersSeqs :: "string \<rightharpoonup> u64"
  selectedTxsNums :: nat

datatype loop_ctl = Continue | Break

text \<open>One round of the loop \<open>for iterator != nil\<close> on the transaction \<open>iterator.Tx()\<close>.\<close>

definition prepare_step ::
  "proposalTxVerifier \<Rightarrow> (sdk_tx \<Rightarrow> remove_result) \<Rightarrow> u64 \<Rightarrow> u64 \<Rightarrow>
   prepare_state \<Rightarrow> sdk_tx \<Rightarrow> panic + (loop_ctl \<times> prepare_state)" where
  "prepare_step v remove maxTxBytes maxBlockGas st memTx =
     (case tx_sigs memTx of
        NotSigVerifiable \<Rightarrow> Inl PanicNotSigVerifiable
      | SigsError \<Rightarrow> Inl PanicGetSignatures
      | Sigs sigs \<Rightarrow>
          (case check_signers (selectedTxsSignersSeqs st) sigs Map.empty of
             (shouldAdd, txSignersSeqs) \<Rightarrow>
               if \<not> shouldAdd then Inr (Continue, st)
               else
                 (case PrepareProposalVerifyTx v memTx of
                    None \<Rightarrow>
                      (case remove memTx of
                         RemoveFailed \<Rightarrow> Inl PanicMempoolRemove
                       | _ \<Rightarrow> Inr (Continue, st))
                  | Some txBz \<Rightarrow>
                      (case SelectTxForProposal maxTxBytes maxBlockGas (Some memTx) txBz
                              (selector st) of
                         (stop, ts') \<Rightarrow>
                           if stop then Inr (Break, st\<lparr>selector := ts'\<rparr>)
                           else
                             (let txsLen = length (SelectedTxs ts')
                              in Inr (Continue,
                                   \<lparr>selector = ts',
                                    selectedTxsSignersSeqs =
                                      update_signer_seqs (txsLen \<noteq> selectedTxsNums st)
                                        txSignersSeqs (selectedTxsSignersSeqs st),
                                    selectedTxsNums = txsLen\<rparr>))))))"

fun prepare_loop ::
  "proposalTxVerifier \<Rightarrow> (sdk_tx \<Rightarrow> remove_result) \<Rightarrow> u64 \<Rightarrow> u64 \<Rightarrow>
   prepare_state \<Rightarrow> sdk_tx list \<Rightarrow> panic + prepare_state" where
  "prepare_loop v remove maxTxBytes maxBlockGas st [] = Inr st"
| "prepare_loop v remove maxTxBytes maxBlockGas st (memTx # rest) =
     (case prepare_step v remove maxTxBytes maxBlockGas st memTx of
        Inl p \<Rightarrow> Inl p
      | Inr (Break, st') \<Rightarrow> Inr st'
      | Inr (Continue, st') \<Rightarrow> prepare_loop v remove maxTxBytes maxBlockGas st' rest)"

text \<open>The loop variables before the first round.\<close>

definition prepare_init :: "defaultTxSelector \<Rightarrow> prepare_state" where
  "prepare_init ts =
     \<lparr>selector = ts, selectedTxsSignersSeqs = Map.empty, selectedTxsNums = 0\<rparr>"

text \<open>
  The handler returns the response, or panics, and in both cases the deferred
  \<open>h.txSelector.Clear()\<close> has run: the result is paired with the handler after the
  call. \<open>Clear\<close> overwrites every field, so what it leaves does not depend on the
  selector it is applied to.
\<close>

definition PrepareProposalHandler ::
  "defaultProposalHandler \<Rightarrow> sdk_context \<Rightarrow> requestPrepareProposal \<Rightarrow>
   (panic + bytes list) \<times> defaultProposalHandler" where
  "PrepareProposalHandler h ctx req =
     (let maxBlockGas = prepare_maxBlockGas ctx;
          maxTxBytes = MaxTxBytes req;
          res =
            (case mempool h of
               Mempool sel remove \<Rightarrow>
                 (case prepare_loop (txVerifier h) remove maxTxBytes maxBlockGas
                         (prepare_init (txSelector h)) (sel (Txs req)) of
                    Inl p \<Rightarrow> Inl p
                  | Inr st \<Rightarrow> Inr (SelectedTxs (selector st)))
             | _ \<Rightarrow> Inr (SelectedTxs (noop_loop maxTxBytes maxBlockGas (txSelector h) (Txs req))))
      in (res, h\<lparr>txSelector := Clear (txSelector h)\<rparr>))"

section \<open>ProcessProposalHandler\<close>

definition process_maxBlockGas :: "sdk_context \<Rightarrow> i64" where
  "process_maxBlockGas ctx = (case Block ctx of None \<Rightarrow> 0 | Some b \<Rightarrow> MaxGas b)"

text \<open>
  The loop over \<open>req.Txs\<close> with the running \<open>totalTxGas\<close>. \<open>maxBlockGas > 0\<close> compares
  an \<open>int64\<close>, so it is the signed \<open>0 <s maxBlockGas\<close>; \<open>totalTxGas > uint64(maxBlockGas)\<close>
  is unsigned.
\<close>

fun process_loop :: "proposalTxVerifier \<Rightarrow> i64 \<Rightarrow> u64 \<Rightarrow> bytes list \<Rightarrow> proposal_status" where
  "process_loop v maxBlockGas totalGas [] = ACCEPT"
| "process_loop v maxBlockGas totalGas (txBytes # rest) =
     (case ProcessProposalVerifyTx v txBytes of
        None \<Rightarrow> REJECT
      | Some tx \<Rightarrow>
          if 0 <s maxBlockGas then
            (let totalGas' = (case tx_gas tx of Some g \<Rightarrow> totalGas + g | None \<Rightarrow> totalGas)
             in if totalGas' > maxBlockGas then REJECT
                else process_loop v maxBlockGas totalGas' rest)
          else process_loop v maxBlockGas totalGas rest)"

definition NoOpProcessProposal :: "sdk_context \<Rightarrow> requestProcessProposal \<Rightarrow> proposal_status" where
  "NoOpProcessProposal ctx req = ACCEPT"

definition ProcessProposalHandler ::
  "defaultProposalHandler \<Rightarrow> sdk_context \<Rightarrow> requestProcessProposal \<Rightarrow> proposal_status" where
  "ProcessProposalHandler h ctx req =
     (case mempool h of
        Mempool sel remove \<Rightarrow>
          process_loop (txVerifier h) (process_maxBlockGas ctx) 0 (proposalTxs req)
      | _ \<Rightarrow> NoOpProcessProposal ctx req)"

section \<open>Observations of a build and reference functions\<close>

text \<open>
  The gas \<open>ProcessProposalHandler\<close> adds for one entry of the proposal: \<open>GetGas()\<close> of
  the decoded transaction when it is a \<open>GasTx\<close>, nothing otherwise.
\<close>

definition declared_gas :: "proposalTxVerifier \<Rightarrow> bytes \<Rightarrow> u64" where
  "declared_gas v txBytes = txGasLimit (ProcessProposalVerifyTx v txBytes)"

text \<open>The sum \<open>totalTxGas\<close> holds after the entries \<open>txs\<close>, in \<open>uint64\<close> arithmetic.\<close>

definition running_gas :: "proposalTxVerifier \<Rightarrow> bytes list \<Rightarrow> u64" where
  "running_gas v txs = sum_list (map (declared_gas v) txs)"

text \<open>Each element is its predecessor plus one, in \<open>uint64\<close> arithmetic.\<close>

fun consecutive :: "u64 list \<Rightarrow> bool" where
  "consecutive [] = True"
| "consecutive [x] = True"
| "consecutive (x # y # r) = (y = x + 1 \<and> consecutive (y # r))"

text \<open>
  The map \<open>txSignersSeqs\<close> the mempool loop builds for the candidate \<open>memTx\<close> in the
  state \<open>st\<close>: the sequences it records for the candidate's signers on admission.
\<close>

definition tx_signers_seqs :: "prepare_state \<Rightarrow> sdk_tx \<Rightarrow> (string \<rightharpoonup> u64)" where
  "tx_signers_seqs st memTx =
     (case tx_sigs memTx of
        Sigs sigs \<Rightarrow> snd (check_signers (selectedTxsSignersSeqs st) sigs Map.empty)
      | _ \<Rightarrow> Map.empty)"

text \<open>
  The run of the mempool loop again, this time listing, in admission order, the
  \<open>txSignersSeqs\<close> of every candidate whose round made the selected list longer.
\<close>

fun admitted_seqs ::
  "proposalTxVerifier \<Rightarrow> (sdk_tx \<Rightarrow> remove_result) \<Rightarrow> u64 \<Rightarrow> u64 \<Rightarrow>
   prepare_state \<Rightarrow> sdk_tx list \<Rightarrow> (string \<rightharpoonup> u64) list" where
  "admitted_seqs v remove maxTxBytes maxBlockGas st [] = []"
| "admitted_seqs v remove maxTxBytes maxBlockGas st (memTx # rest) =
     (case prepare_step v remove maxTxBytes maxBlockGas st memTx of
        Inl p \<Rightarrow> []
      | Inr (ctl, st') \<Rightarrow>
          (if length (selectedTxs (selector st')) \<noteq> length (selectedTxs (selector st))
           then [tx_signers_seqs st memTx] else [])
          @ (case ctl of
               Break \<Rightarrow> []
             | Continue \<Rightarrow> admitted_seqs v remove maxTxBytes maxBlockGas st' rest))"

text \<open>The sequences recorded for the signer \<open>a\<close> in such a list, in order.\<close>

definition recorded_seqs :: "string \<Rightarrow> (string \<rightharpoonup> u64) list \<Rightarrow> u64 list" where
  "recorded_seqs a entries = List.map_filter (\<lambda>m. m a) entries"

text \<open>
  The spec's words for the path without a mempool: the longest prefix of the
  candidates whose byte lengths together fit the budget.
\<close>

fun fitting_prefix :: "nat \<Rightarrow> bytes list \<Rightarrow> bytes list" where
  "fitting_prefix budget [] = []"
| "fitting_prefix budget (t # ts) =
     (if length t \<le> budget then t # fitting_prefix (budget - length t) ts else [])"

text \<open>
  A scan in order over unbounded naturals: a candidate that fits the bytes left is
  taken, one that does not is passed over, and the scan ends once the bytes taken
  reach the budget.
\<close>

fun first_fit :: "nat \<Rightarrow> nat \<Rightarrow> bytes list \<Rightarrow> bytes list" where
  "first_fit budget used [] = []"
| "first_fit budget used (t # ts) =
     (if used + length t \<le> budget then
        t # (if budget \<le> used + length t then [] else first_fit budget (used + length t) ts)
      else (if budget \<le> used then [] else first_fit budget used ts))"

section \<open>The budgeted selector\<close>

lemma word_pos_iff_neq0: "(0 < (w :: u64)) \<longleftrightarrow> w \<noteq> 0"
  by (simp add: word_gt_0)

lemma Select_snd_cases:
  "snd (SelectTxForProposal maxTxBytes maxBlockGas memTx txBz ts) =
     (if admits maxTxBytes maxBlockGas memTx txBz ts then
        (if maxBlockGas = 0 then
           ts\<lparr>totalTxBytes := totalTxBytes ts + of_nat (length txBz),
              selectedTxs := selectedTxs ts @ [txBz]\<rparr>
         else
           ts\<lparr>totalTxGas := totalTxGas ts + txGasLimit memTx,
              totalTxBytes := totalTxBytes ts + of_nat (length txBz),
              selectedTxs := selectedTxs ts @ [txBz]\<rparr>)
      else ts)"
  by (simp add: SelectTxForProposal_def admits_def Let_def word_pos_iff_neq0 add.commute)

lemma Select_fst:
  "fst (SelectTxForProposal maxTxBytes maxBlockGas memTx txBz ts) =
     (let ts' = snd (SelectTxForProposal maxTxBytes maxBlockGas memTx txBz ts)
      in maxTxBytes \<le> totalTxBytes ts' \<or> (0 < maxBlockGas \<and> maxBlockGas \<le> totalTxGas ts'))"
  by (simp add: SelectTxForProposal_def Let_def)

lemma Select_inv:
  assumes "totalTxBytes ts \<le> mb" and "0 < mg \<longrightarrow> totalTxGas ts \<le> mg"
  shows "totalTxBytes (snd (SelectTxForProposal mb mg memTx txBz ts)) \<le> mb
       \<and> (0 < mg \<longrightarrow> totalTxGas (snd (SelectTxForProposal mb mg memTx txBz ts)) \<le> mg)"
  using assms by (simp add: Select_snd_cases admits_def word_pos_iff_neq0)

lemma select_calls_inv:
  "totalTxBytes ts \<le> mb \<Longrightarrow> (0 < mg \<longrightarrow> totalTxGas ts \<le> mg) \<Longrightarrow>
   totalTxBytes (select_calls mb mg ts cs) \<le> mb
     \<and> (0 < mg \<longrightarrow> totalTxGas (select_calls mb mg ts cs) \<le> mg)"
proof (induction cs arbitrary: ts)
  case Nil
  then show ?case by simp
next
  case (Cons c cs)
  obtain memTx txBz where c: "c = (memTx, txBz)" by (cases c)
  from Select_inv [OF Cons.prems, of memTx txBz]
  show ?case unfolding c select_calls.simps by (intro Cons.IH) simp_all
qed

lemma Select_no_gas_limit:
  "(selectedTxs (snd (SelectTxForProposal mb 0 memTx txBz ts)) = selectedTxs ts @ [txBz])
     = (totalTxBytes ts + of_nat (length txBz) \<le> mb)"
  by (simp add: Select_snd_cases admits_def)

lemma Clear_is_new: "Clear ts = NewDefaultTxSelector"
  by (simp add: Clear_def NewDefaultTxSelector_def)

lemma of_nat_length_eq_0:
  "length (b :: bytes) < 2 ^ 64 \<Longrightarrow> ((of_nat (length b) :: u64) = 0) = (b = [])"
  by (auto simp add: word_of_nat_eq_0_iff dest: dvd_imp_le)

subsection \<open>Claim C1: the budgets hold after every call\<close>

text \<open>
  Claim C1. Take any list of \<open>SelectTxForProposal\<close> calls with the budgets \<open>maxTxBytes\<close>
  and \<open>maxBlockGas\<close>, made on a cleared selector. After the calls (and so after each
  of them, the list being arbitrary) the field \<open>totalTxBytes\<close> is at most
  \<open>maxTxBytes\<close> and, when \<open>maxBlockGas > 0\<close>, the field \<open>totalTxGas\<close> is at most
  \<open>maxBlockGas\<close>. With \<open>maxBlockGas = 0\<close> a candidate is appended exactly when the byte
  test passes, and the call does what it does for a candidate without gas: the gas
  of the candidate never excludes it. The totals are the \<open>uint64\<close> fields.
\<close>

theorem select_calls_within_budgets:
  "totalTxBytes (select_calls maxTxBytes maxBlockGas (Clear ts0) cs) \<le> maxTxBytes
   \<and> (0 < maxBlockGas \<longrightarrow>
        totalTxGas (select_calls maxTxBytes maxBlockGas (Clear ts0) cs) \<le> maxBlockGas)
   \<and> ((selectedTxs (snd (SelectTxForProposal maxTxBytes 0 memTx txBz ts))
          = selectedTxs ts @ [txBz])
        = (totalTxBytes ts + of_nat (length txBz) \<le> maxTxBytes))
   \<and> SelectTxForProposal maxTxBytes 0 memTx txBz ts
        = SelectTxForProposal maxTxBytes 0 None txBz ts"
  using select_calls_inv [of "Clear ts0" maxTxBytes maxBlockGas cs]
    Select_no_gas_limit [of maxTxBytes memTx txBz ts]
  by (simp add: Clear_def SelectTxForProposal_def Let_def)

theorem select_calls_within_budgets_witness:
  "totalTxGas (select_calls 3 8 (Clear NewDefaultTxSelector)
      [(Some \<lparr>tx_body = [], tx_gas = Some 5, tx_sigs = Sigs []\<rparr>, [1, 2]),
       (Some \<lparr>tx_body = [], tx_gas = Some 5, tx_sigs = Sigs []\<rparr>, [3]),
       (None, [4])]) \<le> 8
   \<and> selectedTxs (select_calls 3 8 (Clear NewDefaultTxSelector)
      [(Some \<lparr>tx_body = [], tx_gas = Some 5, tx_sigs = Sigs []\<rparr>, [1, 2]),
       (Some \<lparr>tx_body = [], tx_gas = Some 5, tx_sigs = Sigs []\<rparr>, [3]),
       (None, [4])]) = [[1, 2], [4]]"
  using select_calls_within_budgets [of 3 8 NewDefaultTxSelector
      "[(Some \<lparr>tx_body = [], tx_gas = Some 5, tx_sigs = Sigs []\<rparr>, [1, 2]),
       (Some \<lparr>tx_body = [], tx_gas = Some 5, tx_sigs = Sigs []\<rparr>, [3]),
       (None, [4])]" None "[]" NewDefaultTxSelector]
  by (simp add: SelectTxForProposal_def Clear_def NewDefaultTxSelector_def txGasLimit_def Let_def)

subsection \<open>Claim C4: one call of the selector\<close>

text \<open>
  Claim C4, as stated, at a concrete call: with \<open>maxBlockGas = 0\<close> a candidate that
  declares the gas 7 is admitted, and \<open>totalTxGas\<close> stays 0. The selector after the
  call is not the one with the gas added.
\<close>

theorem SelectTxForProposal_no_limit_keeps_gas_total:
  "admits 10 0 (Some \<lparr>tx_body = [], tx_gas = Some 7, tx_sigs = Sigs []\<rparr>) [1] NewDefaultTxSelector
   \<and> txGasLimit (Some \<lparr>tx_body = [], tx_gas = Some 7, tx_sigs = Sigs []\<rparr>) = 7
   \<and> snd (SelectTxForProposal 10 0 (Some \<lparr>tx_body = [], tx_gas = Some 7, tx_sigs = Sigs []\<rparr>) [1]
            NewDefaultTxSelector)
       = \<lparr>totalTxBytes = 1, totalTxGas = 0, selectedTxs = [[1]]\<rparr>
   \<and> snd (SelectTxForProposal 10 0 (Some \<lparr>tx_body = [], tx_gas = Some 7, tx_sigs = Sigs []\<rparr>) [1]
            NewDefaultTxSelector)
       \<noteq> admitted (Some \<lparr>tx_body = [], tx_gas = Some 7, tx_sigs = Sigs []\<rparr>) [1] NewDefaultTxSelector"
  by (simp add: SelectTxForProposal_def admits_def admitted_def NewDefaultTxSelector_def
      txGasLimit_def Let_def)

text \<open>
  Claim C4, amended. The candidate is admitted if and only if
  \<open>totalTxBytes + len(txBz) \<le> maxTxBytes\<close> and (\<open>maxBlockGas = 0\<close> or
  \<open>totalTxGas + gas \<le> maxBlockGas\<close>), the sums taken in \<open>uint64\<close>. On admission
  \<open>txBz\<close> is appended and its size is added to \<open>totalTxBytes\<close>; its gas is added to
  \<open>totalTxGas\<close> only when \<open>maxBlockGas > 0\<close>. Otherwise the selector is unchanged.
  The call returns true if and only if, after this,
  \<open>totalTxBytes \<ge> maxTxBytes\<close> or (\<open>maxBlockGas > 0\<close> and \<open>totalTxGas \<ge> maxBlockGas\<close>),
  whether or not the candidate was admitted.
\<close>

theorem SelectTxForProposal_admission_and_halt:
  "snd (SelectTxForProposal maxTxBytes maxBlockGas memTx txBz ts) =
     (if admits maxTxBytes maxBlockGas memTx txBz ts then
        (if maxBlockGas = 0 then (admitted memTx txBz ts)\<lparr>totalTxGas := totalTxGas ts\<rparr>
         else admitted memTx txBz ts)
      else ts)
   \<and> (selectedTxs (snd (SelectTxForProposal maxTxBytes maxBlockGas memTx txBz ts))
         = selectedTxs ts @ [txBz])
      = admits maxTxBytes maxBlockGas memTx txBz ts
   \<and> fst (SelectTxForProposal maxTxBytes maxBlockGas memTx txBz ts) =
       (maxTxBytes \<le> totalTxBytes (snd (SelectTxForProposal maxTxBytes maxBlockGas memTx txBz ts))
        \<or> (0 < maxBlockGas
            \<and> maxBlockGas \<le> totalTxGas (snd (SelectTxForProposal maxTxBytes maxBlockGas memTx txBz ts))))"
  by (simp add: Select_snd_cases Select_fst admitted_def Let_def)

theorem SelectTxForProposal_admission_and_halt_witness:
  "SelectTxForProposal 2 9 (Some \<lparr>tx_body = [], tx_gas = Some 7, tx_sigs = Sigs []\<rparr>) [1, 1]
      NewDefaultTxSelector
    = (True, \<lparr>totalTxBytes = 2, totalTxGas = 7, selectedTxs = [[1, 1]]\<rparr>)"
  using SelectTxForProposal_admission_and_halt [of 2 9
      "Some \<lparr>tx_body = [], tx_gas = Some 7, tx_sigs = Sigs []\<rparr>" "[1, 1]" NewDefaultTxSelector]
  by (simp add: SelectTxForProposal_def NewDefaultTxSelector_def txGasLimit_def Let_def
      admits_def admitted_def)

subsection \<open>Claim C9: a call that does not admit changes nothing\<close>

text \<open>
  Claim C9. When the call does not admit the candidate (the byte test fails, or
  \<open>maxBlockGas > 0\<close> and the gas test fails), the selector after the call is the
  selector before it, all three fields; the call only returns the halt flag,
  computed from the unchanged totals.
\<close>

theorem SelectTxForProposal_frame:
  "\<not> admits maxTxBytes maxBlockGas memTx txBz ts \<Longrightarrow>
   snd (SelectTxForProposal maxTxBytes maxBlockGas memTx txBz ts) = ts
   \<and> fst (SelectTxForProposal maxTxBytes maxBlockGas memTx txBz ts)
       = (maxTxBytes \<le> totalTxBytes ts \<or> (0 < maxBlockGas \<and> maxBlockGas \<le> totalTxGas ts))"
  by (simp add: Select_snd_cases Select_fst)

theorem SelectTxForProposal_frame_witness:
  "\<not> admits 5 4 (Some \<lparr>tx_body = [], tx_gas = Some 5, tx_sigs = Sigs []\<rparr>) [7]
       \<lparr>totalTxBytes = 2, totalTxGas = 3, selectedTxs = [[9, 9]]\<rparr>
   \<and> SelectTxForProposal 5 4 (Some \<lparr>tx_body = [], tx_gas = Some 5, tx_sigs = Sigs []\<rparr>) [7]
       \<lparr>totalTxBytes = 2, totalTxGas = 3, selectedTxs = [[9, 9]]\<rparr>
     = (False, \<lparr>totalTxBytes = 2, totalTxGas = 3, selectedTxs = [[9, 9]]\<rparr>)"
proof -
  have h: "\<not> admits 5 4 (Some \<lparr>tx_body = [], tx_gas = Some 5, tx_sigs = Sigs []\<rparr>) [7]
       \<lparr>totalTxBytes = 2, totalTxGas = 3, selectedTxs = [[9, 9]]\<rparr>"
    by (simp add: admits_def txGasLimit_def)
  from SelectTxForProposal_frame [OF h] h show ?thesis
    by (simp add: prod_eq_iff)
qed

subsection \<open>Claim C7: the byte budget 0\<close>

text \<open>
  Claim C7, as stated, at a concrete call: with \<open>maxTxBytes = 0\<close> and
  \<open>maxBlockGas = 0\<close> the candidate of length zero is admitted by a cleared selector,
  so the selected list does not stay empty.
\<close>

theorem zero_byte_budget_admits_empty_candidate:
  "selectedTxs (snd (SelectTxForProposal 0 0 None [] NewDefaultTxSelector)) = [[]]
   \<and> selectedTxs (snd (SelectTxForProposal 0 0 None [] NewDefaultTxSelector)) \<noteq> []"
  by (simp add: SelectTxForProposal_def NewDefaultTxSelector_def txGasLimit_def Let_def)

text \<open>
  Claim C7, amended. With \<open>maxTxBytes = 0\<close> every call returns \<open>halt = true\<close>. On a
  cleared selector a candidate of non-zero length is not admitted: the selected list
  stays empty and the totals stay zero. A candidate of length zero is admitted when
  \<open>maxBlockGas = 0\<close> or its gas is at most \<open>maxBlockGas\<close>: it is appended,
  \<open>totalTxBytes\<close> stays 0 and, when \<open>maxBlockGas > 0\<close>, its gas is added to
  \<open>totalTxGas\<close>; otherwise it is not admitted either.
\<close>

theorem zero_byte_budget:
  "fst (SelectTxForProposal 0 maxBlockGas memTx txBz ts)
   \<and> (txBz \<noteq> [] \<and> length txBz < 2 ^ 64 \<longrightarrow>
        snd (SelectTxForProposal 0 maxBlockGas memTx txBz (Clear ts)) = Clear ts)
   \<and> (txBz = [] \<longrightarrow>
        snd (SelectTxForProposal 0 maxBlockGas memTx txBz (Clear ts)) =
          (if maxBlockGas = 0 then \<lparr>totalTxBytes = 0, totalTxGas = 0, selectedTxs = [[]]\<rparr>
           else if txGasLimit memTx \<le> maxBlockGas
             then \<lparr>totalTxBytes = 0, totalTxGas = txGasLimit memTx, selectedTxs = [[]]\<rparr>
           else Clear ts))"
proof (intro conjI impI)
  show "fst (SelectTxForProposal 0 maxBlockGas memTx txBz ts)"
    by (simp add: Select_fst Let_def)
next
  assume "txBz \<noteq> [] \<and> length txBz < 2 ^ 64"
  then have "(of_nat (length txBz) :: u64) \<noteq> 0"
    by (simp add: of_nat_length_eq_0)
  then show "snd (SelectTxForProposal 0 maxBlockGas memTx txBz (Clear ts)) = Clear ts"
    by (simp add: Select_snd_cases admits_def Clear_def)
next
  assume "txBz = []"
  then show "snd (SelectTxForProposal 0 maxBlockGas memTx txBz (Clear ts)) =
          (if maxBlockGas = 0 then \<lparr>totalTxBytes = 0, totalTxGas = 0, selectedTxs = [[]]\<rparr>
           else if txGasLimit memTx \<le> maxBlockGas
             then \<lparr>totalTxBytes = 0, totalTxGas = txGasLimit memTx, selectedTxs = [[]]\<rparr>
           else Clear ts)"
    by (simp add: Select_snd_cases admits_def Clear_def)
qed

theorem zero_byte_budget_witness:
  "fst (SelectTxForProposal 0 0 None [1, 2] NewDefaultTxSelector)
   \<and> snd (SelectTxForProposal 0 0 None [1, 2] (Clear NewDefaultTxSelector)) = NewDefaultTxSelector
   \<and> snd (SelectTxForProposal 0 0 None [] (Clear NewDefaultTxSelector))
       = \<lparr>totalTxBytes = 0, totalTxGas = 0, selectedTxs = [[]]\<rparr>"
  using zero_byte_budget [of 0 None "[1, 2]" NewDefaultTxSelector]
    zero_byte_budget [of 0 None "[]" NewDefaultTxSelector]
  by (simp add: Clear_def NewDefaultTxSelector_def)

section \<open>The verdict of ProcessProposalHandler\<close>

lemma all_upto_Suc:
  "(\<forall>k. 0 < k \<and> k \<le> Suc n \<longrightarrow> P k) = (P 1 \<and> (\<forall>k. 0 < k \<and> k \<le> n \<longrightarrow> P (Suc k)))"
proof
  assume a: "\<forall>k. 0 < k \<and> k \<le> Suc n \<longrightarrow> P k"
  show "P 1 \<and> (\<forall>k. 0 < k \<and> k \<le> n \<longrightarrow> P (Suc k))"
    using a by auto
next
  assume b: "P 1 \<and> (\<forall>k. 0 < k \<and> k \<le> n \<longrightarrow> P (Suc k))"
  show "\<forall>k. 0 < k \<and> k \<le> Suc n \<longrightarrow> P k"
  proof (intro allI impI)
    fix k assume k: "0 < k \<and> k \<le> Suc n"
    then obtain j where j: "k = Suc j" by (cases k) auto
    show "P k"
    proof (cases j)
      case 0 with b j show ?thesis by simp
    next
      case (Suc i)
      with k j have "0 < j \<and> j \<le> n" by simp
      with b j show ?thesis by simp
    qed
  qed
qed

lemma running_gas_Cons: "running_gas v (t # ts) = declared_gas v t + running_gas v ts"
  by (simp add: running_gas_def)

lemma running_gas_Nil: "running_gas v [] = 0"
  by (simp add: running_gas_def)

lemma process_loop_accepts:
  "(process_loop v mg acc txs = ACCEPT) =
     ((\<forall>t \<in> set txs. ProcessProposalVerifyTx v t \<noteq> None)
      \<and> (0 <s mg \<longrightarrow>
           (\<forall>k. 0 < k \<and> k \<le> length txs \<longrightarrow> acc + running_gas v (take k txs) \<le> mg)))"
proof (induction txs arbitrary: acc)
  case Nil
  show ?case by simp
next
  case (Cons t txs)
  show ?case
  proof (cases "ProcessProposalVerifyTx v t")
    case None
    then show ?thesis by simp
  next
    case (Some tx)
    have g: "declared_gas v t = (case tx_gas tx of Some g \<Rightarrow> g | None \<Rightarrow> 0)"
      by (simp add: declared_gas_def txGasLimit_def Some)
    have tot: "(case tx_gas tx of Some g \<Rightarrow> acc + g | None \<Rightarrow> acc) = acc + declared_gas v t"
      by (simp add: g split: option.split)
    show ?thesis
    proof (cases "0 <s mg")
      case False
      with Some Cons.IH [of acc] show ?thesis by simp
    next
      case True
      have split: "(\<forall>k. 0 < k \<and> k \<le> length (t # txs) \<longrightarrow> acc + running_gas v (take k (t # txs)) \<le> mg)
        = (acc + declared_gas v t \<le> mg
           \<and> (\<forall>k. 0 < k \<and> k \<le> length txs \<longrightarrow> acc + declared_gas v t + running_gas v (take k txs) \<le> mg))"
        using all_upto_Suc [of "length txs" "\<lambda>k. acc + running_gas v (take k (t # txs)) \<le> mg"]
        by (simp add: running_gas_Cons running_gas_Nil add.assoc)
      show ?thesis
      proof (cases "acc + declared_gas v t \<le> mg")
        case le: True
        then have "\<not> mg < acc + declared_gas v t" by (simp add: not_less)
        with True Some le Cons.IH [of "acc + declared_gas v t"] show ?thesis
          unfolding split by (simp add: tot Let_def)
      next
        case gt: False
        then have "mg < acc + declared_gas v t" by (simp add: not_le)
        with True Some gt show ?thesis
          unfolding split by (simp add: tot Let_def)
      qed
    qed
  qed
qed

lemma unat_minus_1_u64: "unat (- 1 :: u64) = 2 ^ 64 - 1"
  by (simp add: unsigned_minus_1_eq_mask mask_eq_exp_minus_1)

lemma negative_i64_is_large:
  assumes "(x :: i64) <s 0"
  shows "2 ^ 63 \<le> unat x"
proof -
  from assms have "sint x < 0" by (simp add: word_sless_alt)
  moreover have "0 \<le> uint x" by simp
  ultimately have "sint x < uint x" by (rule less_le_trans)
  then have "2 ^ 63 \<le> uint x"
    by (simp add: sint_uint signed_take_bit_int_less_self_iff)
  then have "(2::int) ^ 63 \<le> int (unat x)" by (simp only: uint_nat)
  then have "int (2 ^ 63) \<le> int (unat x)" by (simp only: of_nat_power of_nat_numeral)
  then show ?thesis by (simp only: of_nat_le_iff)
qed

lemma negative_i64_pos: "(x :: i64) <s 0 \<Longrightarrow> 0 < x"
  by (auto simp add: word_gt_0 word_sless_alt)

lemma negative_i64_not_spos: "(x :: i64) <s 0 \<Longrightarrow> \<not> 0 <s x"
  by (simp add: word_sless_alt)

lemma process_loop_no_gas_check:
  "\<not> 0 <s mg \<Longrightarrow>
   (process_loop v mg acc txs = ACCEPT) = (\<forall>t \<in> set txs. ProcessProposalVerifyTx v t \<noteq> None)"
  by (simp add: process_loop_accepts)

subsection \<open>Claim C5: when a proposal is rejected\<close>

text \<open>
  Claim C5. With a real mempool, \<open>ProcessProposalHandler\<close> answers \<open>ACCEPT\<close> exactly
  when every entry of the list passes the verifier and, if the \<open>int64\<close> budget is
  positive, the running sum of the declared gas (the \<open>uint64\<close> variable
  \<open>totalTxGas\<close>, which wraps) is at most the budget after each entry of the scan. It
  answers \<open>REJECT\<close> exactly when some entry fails the verifier or, with a positive
  budget, the running sum exceeds it after some entry.
\<close>

theorem ProcessProposalHandler_verdict:
  assumes "mempool h = Mempool sel remove"
  shows "(ProcessProposalHandler h ctx req = ACCEPT) =
           ((\<forall>t \<in> set (proposalTxs req). ProcessProposalVerifyTx (txVerifier h) t \<noteq> None)
            \<and> (0 <s process_maxBlockGas ctx \<longrightarrow>
                 (\<forall>k. 0 < k \<and> k \<le> length (proposalTxs req) \<longrightarrow>
                    running_gas (txVerifier h) (take k (proposalTxs req)) \<le> process_maxBlockGas ctx)))
         \<and> (ProcessProposalHandler h ctx req = REJECT) =
           ((\<exists>t \<in> set (proposalTxs req). ProcessProposalVerifyTx (txVerifier h) t = None)
            \<or> (0 <s process_maxBlockGas ctx
                \<and> (\<exists>k. 0 < k \<and> k \<le> length (proposalTxs req)
                      \<and> process_maxBlockGas ctx < running_gas (txVerifier h) (take k (proposalTxs req)))))"
proof -
  have a: "(ProcessProposalHandler h ctx req = ACCEPT) =
           ((\<forall>t \<in> set (proposalTxs req). ProcessProposalVerifyTx (txVerifier h) t \<noteq> None)
            \<and> (0 <s process_maxBlockGas ctx \<longrightarrow>
                 (\<forall>k. 0 < k \<and> k \<le> length (proposalTxs req) \<longrightarrow>
                    running_gas (txVerifier h) (take k (proposalTxs req)) \<le> process_maxBlockGas ctx)))"
    using process_loop_accepts [of "txVerifier h" "process_maxBlockGas ctx" 0 "proposalTxs req"]
    by (simp add: ProcessProposalHandler_def assms)
  have r: "(ProcessProposalHandler h ctx req = REJECT) = (ProcessProposalHandler h ctx req \<noteq> ACCEPT)"
    by (cases "ProcessProposalHandler h ctx req") simp_all
  show ?thesis
    unfolding r unfolding a by (auto simp add: not_le)
qed


theorem ProcessProposalHandler_verdict_witness:
  "ProcessProposalHandler
      \<lparr>mempool = Mempool (\<lambda>txs. []) (\<lambda>t. RemoveOk),
       txVerifier = \<lparr>PrepareProposalVerifyTx = (\<lambda>t. Some (tx_body t)),
         ProcessProposalVerifyTx = (\<lambda>b. if b = [] then None
           else Some \<lparr>tx_body = b, tx_gas = Some (of_nat (length b)), tx_sigs = Sigs []\<rparr>)\<rparr>,
       txSelector = NewDefaultTxSelector\<rparr>
      \<lparr>Block = Some \<lparr>MaxBytes = 0, MaxGas = 4\<rparr>\<rparr> \<lparr>proposalTxs = [[1, 1], [2, 2, 2]]\<rparr> = REJECT
   \<and> ProcessProposalHandler
      \<lparr>mempool = Mempool (\<lambda>txs. []) (\<lambda>t. RemoveOk),
       txVerifier = \<lparr>PrepareProposalVerifyTx = (\<lambda>t. Some (tx_body t)),
         ProcessProposalVerifyTx = (\<lambda>b. if b = [] then None
           else Some \<lparr>tx_body = b, tx_gas = Some (of_nat (length b)), tx_sigs = Sigs []\<rparr>)\<rparr>,
       txSelector = NewDefaultTxSelector\<rparr>
      \<lparr>Block = Some \<lparr>MaxBytes = 0, MaxGas = 5\<rparr>\<rparr> \<lparr>proposalTxs = [[1, 1], [2, 2, 2]]\<rparr> = ACCEPT"
  using ProcessProposalHandler_verdict [of
      "\<lparr>mempool = Mempool (\<lambda>txs. []) (\<lambda>t. RemoveOk),
       txVerifier = \<lparr>PrepareProposalVerifyTx = (\<lambda>t. Some (tx_body t)),
         ProcessProposalVerifyTx = (\<lambda>b. if b = [] then None
           else Some \<lparr>tx_body = b, tx_gas = Some (of_nat (length b)), tx_sigs = Sigs []\<rparr>)\<rparr>,
       txSelector = NewDefaultTxSelector\<rparr>"
      "\<lambda>txs. []" "\<lambda>t. RemoveOk"
      "\<lparr>Block = Some \<lparr>MaxBytes = 0, MaxGas = 4\<rparr>\<rparr>" "\<lparr>proposalTxs = [[1, 1], [2, 2, 2]]\<rparr>"]
  by (simp add: ProcessProposalHandler_def process_maxBlockGas_def word_sless_alt)

subsection \<open>Claim C10: a negative or zero MaxGas\<close>

text \<open>
  Claim C10. Let the consensus parameters carry block parameters. When \<open>MaxGas\<close> is
  negative, \<open>PrepareProposalHandler\<close> passes the selector \<open>uint64(MaxGas)\<close>, a budget
  that is positive and at least \<open>2^63\<close> (\<open>2^64 - 1\<close> for \<open>MaxGas = -1\<close>), so the
  selector tests the gas of every candidate against it and adds the gas of the
  admitted ones; \<open>ProcessProposalHandler\<close> keeps the \<open>int64\<close>, its guard
  \<open>maxBlockGas > 0\<close> is false, and it accepts exactly the lists whose entries all
  pass the verifier, whatever their gas. When \<open>MaxGas = 0\<close> neither side looks at
  the gas. Both guards are off together only for \<open>MaxGas = 0\<close>.
\<close>

theorem MaxGas_negative_or_zero:
  assumes "Block ctx = Some b" and "mempool h = Mempool sel remove"
  shows "(MaxGas b <s 0 \<longrightarrow>
            prepare_maxBlockGas ctx = MaxGas b
          \<and> 0 < prepare_maxBlockGas ctx
          \<and> 2 ^ 63 \<le> unat (prepare_maxBlockGas ctx)
          \<and> (MaxGas b = - 1 \<longrightarrow> unat (prepare_maxBlockGas ctx) = 2 ^ 64 - 1)
          \<and> snd (SelectTxForProposal maxTxBytes (prepare_maxBlockGas ctx) memTx txBz ts)
              = (if totalTxBytes ts + of_nat (length txBz) \<le> maxTxBytes
                    \<and> totalTxGas ts + txGasLimit memTx \<le> MaxGas b
                 then admitted memTx txBz ts else ts)
          \<and> (ProcessProposalHandler h ctx req = ACCEPT)
              = (\<forall>t \<in> set (proposalTxs req). ProcessProposalVerifyTx (txVerifier h) t \<noteq> None))
       \<and> (MaxGas b = 0 \<longrightarrow>
            SelectTxForProposal maxTxBytes (prepare_maxBlockGas ctx) memTx txBz ts
              = SelectTxForProposal maxTxBytes (prepare_maxBlockGas ctx) None txBz ts
          \<and> (ProcessProposalHandler h ctx req = ACCEPT)
              = (\<forall>t \<in> set (proposalTxs req). ProcessProposalVerifyTx (txVerifier h) t \<noteq> None))
       \<and> ((\<not> 0 < prepare_maxBlockGas ctx \<and> \<not> 0 <s process_maxBlockGas ctx) = (MaxGas b = 0))"
proof -
  have p: "prepare_maxBlockGas ctx = MaxGas b" and q: "process_maxBlockGas ctx = MaxGas b"
    by (simp_all add: prepare_maxBlockGas_def process_maxBlockGas_def assms)
  have ph: "ProcessProposalHandler h ctx req
      = process_loop (txVerifier h) (MaxGas b) 0 (proposalTxs req)"
    by (simp add: ProcessProposalHandler_def assms q)
  have neg: "MaxGas b <s 0 \<longrightarrow>
            prepare_maxBlockGas ctx = MaxGas b
          \<and> 0 < prepare_maxBlockGas ctx
          \<and> 2 ^ 63 \<le> unat (prepare_maxBlockGas ctx)
          \<and> (MaxGas b = - 1 \<longrightarrow> unat (prepare_maxBlockGas ctx) = 2 ^ 64 - 1)
          \<and> snd (SelectTxForProposal maxTxBytes (prepare_maxBlockGas ctx) memTx txBz ts)
              = (if totalTxBytes ts + of_nat (length txBz) \<le> maxTxBytes
                    \<and> totalTxGas ts + txGasLimit memTx \<le> MaxGas b
                 then admitted memTx txBz ts else ts)
          \<and> (ProcessProposalHandler h ctx req = ACCEPT)
              = (\<forall>t \<in> set (proposalTxs req). ProcessProposalVerifyTx (txVerifier h) t \<noteq> None)"
  proof (intro impI conjI)
    assume n: "MaxGas b <s 0"
    show "prepare_maxBlockGas ctx = MaxGas b" by (fact p)
    show "0 < prepare_maxBlockGas ctx" using negative_i64_pos [OF n] by (simp add: p)
    show "2 ^ 63 \<le> unat (prepare_maxBlockGas ctx)" using negative_i64_is_large [OF n] by (simp add: p)
    show "unat (prepare_maxBlockGas ctx) = 2 ^ 64 - 1" if "MaxGas b = - 1"
      using that by (simp add: p unat_minus_1_u64)
    from negative_i64_pos [OF n] have nz: "MaxGas b \<noteq> 0" by (simp add: word_gt_0)
    show "snd (SelectTxForProposal maxTxBytes (prepare_maxBlockGas ctx) memTx txBz ts)
              = (if totalTxBytes ts + of_nat (length txBz) \<le> maxTxBytes
                    \<and> totalTxGas ts + txGasLimit memTx \<le> MaxGas b
                 then admitted memTx txBz ts else ts)"
      using nz by (simp add: p Select_snd_cases admits_def admitted_def)
    show "(ProcessProposalHandler h ctx req = ACCEPT)
              = (\<forall>t \<in> set (proposalTxs req). ProcessProposalVerifyTx (txVerifier h) t \<noteq> None)"
      unfolding ph using negative_i64_not_spos [OF n] by (rule process_loop_no_gas_check)
  qed
  have zero: "MaxGas b = 0 \<longrightarrow>
            SelectTxForProposal maxTxBytes (prepare_maxBlockGas ctx) memTx txBz ts
              = SelectTxForProposal maxTxBytes (prepare_maxBlockGas ctx) None txBz ts
          \<and> (ProcessProposalHandler h ctx req = ACCEPT)
              = (\<forall>t \<in> set (proposalTxs req). ProcessProposalVerifyTx (txVerifier h) t \<noteq> None)"
  proof (intro impI conjI)
    assume z: "MaxGas b = 0"
    show "SelectTxForProposal maxTxBytes (prepare_maxBlockGas ctx) memTx txBz ts
              = SelectTxForProposal maxTxBytes (prepare_maxBlockGas ctx) None txBz ts"
      by (simp add: p z SelectTxForProposal_def Let_def)
    have "\<not> 0 <s MaxGas b" by (simp add: z)
    then show "(ProcessProposalHandler h ctx req = ACCEPT)
              = (\<forall>t \<in> set (proposalTxs req). ProcessProposalVerifyTx (txVerifier h) t \<noteq> None)"
      unfolding ph by (rule process_loop_no_gas_check)
  qed
  have only: "(\<not> 0 < prepare_maxBlockGas ctx \<and> \<not> 0 <s process_maxBlockGas ctx) = (MaxGas b = 0)"
    by (auto simp add: p q word_gt_0)
  from neg zero only show ?thesis by (intro conjI)
qed

theorem MaxGas_negative_or_zero_witness:
  "unat (prepare_maxBlockGas \<lparr>Block = Some \<lparr>MaxBytes = 0, MaxGas = - 1\<rparr>\<rparr>) = 2 ^ 64 - 1
   \<and> SelectTxForProposal 9 (prepare_maxBlockGas \<lparr>Block = Some \<lparr>MaxBytes = 0, MaxGas = - 1\<rparr>\<rparr>)
        (Some \<lparr>tx_body = [], tx_gas = Some (- 1), tx_sigs = Sigs []\<rparr>) [3] NewDefaultTxSelector
       = (True, \<lparr>totalTxBytes = 1, totalTxGas = - 1, selectedTxs = [[3]]\<rparr>)
   \<and> ProcessProposalHandler
        \<lparr>mempool = Mempool (\<lambda>txs. []) (\<lambda>t. RemoveOk),
       txVerifier = \<lparr>PrepareProposalVerifyTx = (\<lambda>t. Some (tx_body t)),
         ProcessProposalVerifyTx = (\<lambda>b. if b = [] then None
           else Some \<lparr>tx_body = b, tx_gas = Some (of_nat (length b)), tx_sigs = Sigs []\<rparr>)\<rparr>,
       txSelector = NewDefaultTxSelector\<rparr>
        \<lparr>Block = Some \<lparr>MaxBytes = 0, MaxGas = - 1\<rparr>\<rparr> \<lparr>proposalTxs = [[1, 1], [2, 2, 2]]\<rparr> = ACCEPT"
  using MaxGas_negative_or_zero [of "\<lparr>Block = Some \<lparr>MaxBytes = 0, MaxGas = - 1\<rparr>\<rparr>"
      "\<lparr>MaxBytes = 0, MaxGas = - 1\<rparr>"
      "\<lparr>mempool = Mempool (\<lambda>txs. []) (\<lambda>t. RemoveOk),
       txVerifier = \<lparr>PrepareProposalVerifyTx = (\<lambda>t. Some (tx_body t)),
         ProcessProposalVerifyTx = (\<lambda>b. if b = [] then None
           else Some \<lparr>tx_body = b, tx_gas = Some (of_nat (length b)), tx_sigs = Sigs []\<rparr>)\<rparr>,
       txSelector = NewDefaultTxSelector\<rparr>"
      "\<lambda>txs. []" "\<lambda>t. RemoveOk" 9
      "Some \<lparr>tx_body = [], tx_gas = Some (- 1), tx_sigs = Sigs []\<rparr>" "[3]" NewDefaultTxSelector
      "\<lparr>proposalTxs = [[1, 1], [2, 2, 2]]\<rparr>"]
  by (simp add: prod_eq_iff Select_fst NewDefaultTxSelector_def admitted_def txGasLimit_def
      prepare_maxBlockGas_def word_gt_0)

end
